theory Spec2Isabelle
  imports Main
begin

section \<open>Python primitives used by the script\<close>

text \<open>
  Exceptions that can leave a function of \<^verbatim>\<open>vmware_perf_counters.py\<close>. The script has no
  \<^verbatim>\<open>raise\<close> and no \<^verbatim>\<open>try\<close> of its own: an exception is either raised by a builtin
  operation on the script's own data (\<open>TypeError\<close>, \<open>ZeroDivisionError\<close>,
  \<open>OverflowError\<close>) or comes out of a call into a library or the server
  (\<open>External\<close>, with the name of the exception class).
\<close>

datatype exn = External string | TypeError | ZeroDivisionError | OverflowError

definition digit_char :: "nat \<Rightarrow> char" where
  "digit_char d = ''0123456789'' ! d"

fun str_nat :: "nat \<Rightarrow> string" where
  "str_nat n = (if n < 10 then [digit_char n] else str_nat (n div 10) @ [digit_char (n mod 10)])"

declare str_nat.simps [simp del]

text \<open>\<^verbatim>\<open>str(i)\<close> of a Python integer, as an f-string field renders it.\<close>

definition str_int :: "int \<Rightarrow> string" where
  "str_int i = (if i < 0 then ''-'' @ str_nat (nat (- i)) else str_nat (nat i))"

text \<open>An f-string field holding an optional string: \<^verbatim>\<open>None\<close> renders as the word.\<close>

definition str_opt :: "string option \<Rightarrow> string" where
  "str_opt v = (case v of None \<Rightarrow> ''None'' | Some s \<Rightarrow> s)"

text \<open>\<^verbatim>\<open>sep.join(parts)\<close>.\<close>

fun join :: "string \<Rightarrow> string list \<Rightarrow> string" where
  "join sep [] = []"
| "join sep [x] = x"
| "join sep (x # y # ys) = x @ sep @ join sep (y # ys)"

text \<open>
  \<^verbatim>\<open>divmod\<close> on integers with a positive divisor: Python floors, as \<open>div\<close> and
  \<open>mod\<close> on \<^typ>\<open>int\<close> do. The script only divides by the literals 60 and 24.
\<close>

definition divmod :: "int \<Rightarrow> int \<Rightarrow> int \<times> int" where
  "divmod a b = (a div b, a mod b)"

text \<open>
  \<^verbatim>\<open>str.casefold\<close> on the ASCII range: the letters A to Z go to a to z, every other
  character stays. Counter names are ASCII identifiers.
\<close>

definition casefold_char :: "char \<Rightarrow> char" where
  "casefold_char c =
     (let n = (of_char c :: nat) in if 65 \<le> n \<and> n \<le> 90 then char_of (n + 32) else c)"

definition casefold :: "string \<Rightarrow> string" where
  "casefold s = map casefold_char s"

text \<open>
  \<^verbatim>\<open>s.startswith(prefix)\<close>: a prefix that is not a string (here \<^verbatim>\<open>None\<close>) raises
  \<open>TypeError\<close>.
\<close>

definition startswith :: "string \<Rightarrow> string option \<Rightarrow> exn + bool" where
  "startswith s p =
     (case p of None \<Rightarrow> Inl TypeError | Some q \<Rightarrow> Inr (take (length q) s = q))"

text \<open>\<^verbatim>\<open>answer or None\<close>: an absent and an empty answer both become \<^verbatim>\<open>None\<close>.\<close>

definition or_None :: "string option \<Rightarrow> string option" where
  "or_None answer = (case answer of None \<Rightarrow> None | Some s \<Rightarrow> if s = [] then None else Some s)"

section \<open>Data\<close>

text \<open>The script's dataclass.\<close>

record CounterInfo =
  id_c :: int
  name :: string
  rollup_type :: string
  label :: string
  summary :: string

text \<open>
  What the script reads of the server's objects: a performance counter
  (\<^verbatim>\<open>c.key\<close>, \<^verbatim>\<open>c.groupInfo.key\<close>, \<^verbatim>\<open>c.nameInfo.key\<close>, \<^verbatim>\<open>c.rollupType\<close>,
  \<^verbatim>\<open>c.unitInfo.label\<close>, \<^verbatim>\<open>c.nameInfo.summary\<close>), a historical interval, a managed
  entity, a metric id, a query specification and a query result record.
\<close>

record PerfCounterInfo =
  key :: int
  groupInfo_key :: string
  nameInfo_key :: string
  rollupType :: string
  unitInfo_label :: string
  nameInfo_summary :: string

record CounterLevelMapping =
  counterId :: int
  aggregateLevel :: int

record historical_interval =
  samplingPeriod :: int
  name_i :: string
  level :: int
  length_i :: int

datatype mo_type = HostSystem | VirtualMachine | Datastore

record entity =
  name_e :: string
  moid :: string

record MetricId =
  counterId_m :: int
  instance_m :: string

text \<open>
  A \<^verbatim>\<open>datetime\<close> is the number of microseconds since \<^verbatim>\<open>datetime.min\<close>
  (0001-01-01 00:00:00); a \<^verbatim>\<open>timedelta\<close> is a number of microseconds.
\<close>

type_synonym datetime = int

record QuerySpec =
  entity_q :: entity
  metricId :: "MetricId list"
  startTime :: "datetime option"
  endTime :: "datetime option"
  intervalId :: int

record SampleInfo =
  timestamp :: datetime
  interval_s :: int

record MetricSeries =
  id_s :: MetricId
  value_s :: "int list"

record EntityMetric =
  sampleInfo :: "SampleInfo list"
  value_r :: "MetricSeries list"

text \<open>
  The quotient \<^verbatim>\<open>x / (interval * 10)\<close> of two integers is a float in Python. The model
  keeps numerator and denominator and does not round.
\<close>

datatype quotient = Quot int int

datatype axis = Ax1 | Ax2

text \<open>The values handed to one \<^verbatim>\<open>plot\<close> call of an axis.\<close>

datatype ydata = Raw "int list" | Scaled "quotient list"

text \<open>
  The calls with an effect outside the process, in the order the script makes them.
\<close>

datatype event =
    LoginEv string string
  | PrintEv string
  | UpdateCounterLevelMappingEv "CounterLevelMapping list"
  | StubEv string string
  | DestroyViewEv
  | QueryPerfEv "QuerySpec list"
  | SubplotsEv bool
  | PlotEv axis "datetime list" ydata string
  | ShowEv string string
  | DisconnectEv

section \<open>The servers and the user\<close>

text \<open>
  The raw SOAP endpoint as \<^verbatim>\<open>enable_guest\<close> uses it: each request either returns or
  raises; \<open>cookies\<close> is the session's cookie jar as it is after the requests.
\<close>

record raw_service =
  Login :: "string \<Rightarrow> string \<Rightarrow> exn + unit"
  RetrieveServiceContent :: "exn + string \<times> string"
  QueryPerfCounterInt :: "exn + PerfCounterInfo list"
  UpdateCounterLevelMapping :: "CounterLevelMapping list \<Rightarrow> exn + unit"
  cookies :: "string \<Rightarrow> string option"

text \<open>The typed performance manager and the service content.\<close>

record perf_mgr =
  historicalInterval :: "historical_interval list"
  perfCounter :: "PerfCounterInfo list"
  QueryAvailablePerfMetric :: "entity \<Rightarrow> int \<Rightarrow> exn + MetricId list"
  QueryPerf :: "QuerySpec list \<Rightarrow> exn + EntityMetric list"

record content =
  perfManager :: perf_mgr
  CreateContainerView :: "mo_type \<Rightarrow> exn + entity list"

text \<open>
  One run's surroundings: the command line, the raw endpoint, the typed endpoint, the
  answers to the five prompts (a prompt answers or raises; the text prompt may also
  yield no answer; a cancelled menu, which answers \<^verbatim>\<open>None\<close>, is not followed), the
  plotting library's reaction to a \<^verbatim>\<open>plot\<close> call, and the clock, read as microseconds
  since 1970-01-01 00:00:00 UTC.
\<close>

record env =
  args_host :: string
  args_user :: string
  args_password :: string
  service :: raw_service
  ask_type :: "exn + mo_type"
  RetrieveContent :: "exn + content"
  ask_mo :: "(string \<times> entity) list \<Rightarrow> exn + entity"
  ask_interval :: "(string \<times> int) list \<Rightarrow> exn + int"
  ask_mask :: "exn + string option"
  ask_counter :: "(string \<times> CounterInfo) list \<Rightarrow> exn + CounterInfo"
  plot :: "axis \<Rightarrow> datetime list \<Rightarrow> ydata \<Rightarrow> string \<Rightarrow> exn + unit"
  clock :: nat

section \<open>Running with effects\<close>

text \<open>
  A computation yields the events it caused and either the exception that ended it or
  its value.
\<close>

type_synonym 'a io = "event list \<times> (exn + 'a)"

definition io_ret :: "'a \<Rightarrow> 'a io" where
  "io_ret x = ([], Inr x)"

definition lift :: "exn + 'a \<Rightarrow> 'a io" where
  "lift r = ([], r)"

definition emit :: "event \<Rightarrow> unit io" where
  "emit ev = ([ev], Inr ())"

text \<open>An external call: the event of making it, then its answer.\<close>

definition call :: "event \<Rightarrow> exn + 'a \<Rightarrow> 'a io" where
  "call ev r = ([ev], r)"

definition io_bind :: "'a io \<Rightarrow> ('a \<Rightarrow> 'b io) \<Rightarrow> 'b io" where
  "io_bind m f =
     (case m of
        (tr, Inl e) \<Rightarrow> (tr, Inl e)
      | (tr, Inr x) \<Rightarrow> (case f x of (tr', r) \<Rightarrow> (tr @ tr', r)))"

section \<open>The script\<close>

subsection \<open>\<^verbatim>\<open>enable_guest\<close>\<close>

text \<open>
  Loading the WSDL and binding the service (lines 28 to 40) are not modelled; the function
  starts at the login. The loop of lines 60 to 62 appends to both lists.
\<close>

fun enable_guest_loop ::
  "PerfCounterInfo list \<Rightarrow> CounterLevelMapping list \<Rightarrow> CounterInfo list
     \<Rightarrow> CounterLevelMapping list \<times> CounterInfo list" where
  "enable_guest_loop [] mappings result = (mappings, result)"
| "enable_guest_loop (c # cs) mappings result =
     enable_guest_loop cs
       (mappings @ [\<lparr>counterId = key c, aggregateLevel = 4\<rparr>])
       (result @ [\<lparr>id_c = key c, name = groupInfo_key c @ ''.'' @ nameInfo_key c,
                   rollup_type = rollupType c, label = unitInfo_label c,
                   summary = nameInfo_summary c\<rparr>])"

definition enable_guest ::
  "raw_service \<Rightarrow> string \<Rightarrow> string \<Rightarrow> string \<Rightarrow> (string option \<times> CounterInfo list) io" where
  "enable_guest srv addr user password =
     io_bind (call (LoginEv user password) (Login srv user password)) (\<lambda>_.
     io_bind (lift (RetrieveServiceContent srv)) (\<lambda>perf_mgr_ref.
     io_bind (emit (PrintEv (''Type: '' @ fst perf_mgr_ref))) (\<lambda>_.
     io_bind (emit (PrintEv (''Value: '' @ snd perf_mgr_ref))) (\<lambda>_.
     io_bind (lift (QueryPerfCounterInt srv)) (\<lambda>counters.
     (case enable_guest_loop counters [] [] of (mappings, result) \<Rightarrow>
     io_bind (call (UpdateCounterLevelMappingEv mappings)
                (UpdateCounterLevelMapping srv mappings)) (\<lambda>_.
     (let session_cookie_value = cookies srv ''vmware_soap_session''
      in io_ret (session_cookie_value, result)))))))))"

subsection \<open>\<^verbatim>\<open>get_entities\<close>, \<^verbatim>\<open>get_counters\<close>\<close>

definition get_entities :: "content \<Rightarrow> mo_type \<Rightarrow> entity list io" where
  "get_entities cont type =
     io_bind (lift (CreateContainerView cont type)) (\<lambda>entities.
     io_bind (emit DestroyViewEv) (\<lambda>_.
     io_ret entities))"

text \<open>
  The dict comprehension keeps, for a key that occurs twice, the later counter;
  \<open>map_of\<close> finds the first pair, so the pairs are reversed.
\<close>

definition counter_info :: "PerfCounterInfo list \<Rightarrow> int \<Rightarrow> PerfCounterInfo option" where
  "counter_info cs = map_of (rev (map (\<lambda>c. (key c, c)) cs))"

fun get_counters_loop ::
  "(int \<Rightarrow> PerfCounterInfo option) \<Rightarrow> MetricId list \<Rightarrow> CounterInfo list \<Rightarrow> CounterInfo list" where
  "get_counters_loop info [] counters = counters"
| "get_counters_loop info (m # ms) counters =
     (case info (counterId_m m) of
        None \<Rightarrow> get_counters_loop info ms counters
      | Some c \<Rightarrow>
          (let full_name = groupInfo_key c @ ''.'' @ nameInfo_key c
           in get_counters_loop info ms
                (counters @ [\<lparr>id_c = counterId_m m, name = full_name,
                              rollup_type = rollupType c, label = unitInfo_label c,
                              summary = nameInfo_summary c\<rparr>])))"

definition get_counters :: "perf_mgr \<Rightarrow> entity \<Rightarrow> int \<Rightarrow> exn + CounterInfo list" where
  "get_counters pm host interval_id =
     (case QueryAvailablePerfMetric pm host interval_id of
        Inl e \<Rightarrow> Inl e
      | Inr available \<Rightarrow> Inr (get_counters_loop (counter_info (perfCounter pm)) available []))"

subsection \<open>\<^verbatim>\<open>seconds_to_readable\<close>, \<^verbatim>\<open>get_intervals\<close>\<close>

definition seconds_to_readable :: "int \<Rightarrow> string" where
  "seconds_to_readable seconds =
     (let (minutes, sec) = divmod seconds 60;
          (hours, minutes) = divmod minutes 60;
          (days, hours) = divmod hours 24;
          parts = [];
          parts = (if days \<noteq> 0 then parts @ [str_int days @ ''d''] else parts);
          parts = (if hours \<noteq> 0 then parts @ [str_int hours @ ''h''] else parts);
          parts = (if minutes \<noteq> 0 then parts @ [str_int minutes @ ''m''] else parts);
          parts = (if sec \<noteq> 0 then parts @ [str_int sec @ ''s''] else parts);
          joined = join '' '' parts
      in if joined = [] then ''0s'' else joined)"

definition interval_title :: "historical_interval \<Rightarrow> string \<Rightarrow> string" where
  "interval_title i readable =
     ''  ID: '' @ str_int (samplingPeriod i) @ ''s ('' @ name_i i @ '') - Level ''
       @ str_int (level i) @ '', Retained for '' @ readable"

fun get_intervals_loop ::
  "historical_interval list \<Rightarrow> (int \<times> string) list \<Rightarrow> (int \<times> string) list" where
  "get_intervals_loop [] intervals = intervals"
| "get_intervals_loop (i # rest) intervals =
     (let readable = seconds_to_readable (length_i i)
      in get_intervals_loop rest (intervals @ [(samplingPeriod i, interval_title i readable)]))"

definition get_intervals :: "perf_mgr \<Rightarrow> (int \<times> string) list" where
  "get_intervals pm =
     (let intervals = [];
          intervals = intervals @
            [(20, ''  ID: 20 seconds (Realtime) - Level 1, Retained for ''
                    @ seconds_to_readable 3600)]
      in get_intervals_loop (historicalInterval pm) intervals)"

subsection \<open>\<^verbatim>\<open>main\<close>\<close>

text \<open>
  Line 160: the comprehension tests the counters in order and stops at the first
  test that raises; with no counter to test nothing is raised.
\<close>

fun filtered_counters :: "string option \<Rightarrow> CounterInfo list \<Rightarrow> exn + CounterInfo list" where
  "filtered_counters msk [] = Inr []"
| "filtered_counters msk (t # ts) =
     (case startswith (casefold (name t)) msk of
        Inl e \<Rightarrow> Inl e
      | Inr keep \<Rightarrow>
          (case filtered_counters msk ts of
             Inl e \<Rightarrow> Inl e
           | Inr rest \<Rightarrow> Inr (if keep then t # rest else rest)))"

text \<open>Line 159: the entity's counters, then the guest counters.\<close>

definition all_counters :: "CounterInfo list \<Rightarrow> CounterInfo list \<Rightarrow> CounterInfo list" where
  "all_counters entity_counters guest_metrics = entity_counters @ guest_metrics"

definition counter_title :: "CounterInfo \<Rightarrow> string" where
  "counter_title counter =
     name counter @ ''.'' @ rollup_type counter @ '' ('' @ str_int (id_c counter) @ '')''"

text \<open>
  \<^verbatim>\<open>datetime.datetime.utcnow()\<close> and \<^verbatim>\<open>datetime - timedelta\<close>, which raises
  \<open>OverflowError\<close> below \<^verbatim>\<open>datetime.min\<close>. 1970-01-01 is day 719162 after
  \<^verbatim>\<open>datetime.min\<close>.
\<close>

definition timedelta_days :: "int \<Rightarrow> int" where
  "timedelta_days d = d * 86400 * 1000000"

definition utcnow :: "nat \<Rightarrow> datetime" where
  "utcnow clk = timedelta_days 719162 + int clk"

definition datetime_sub :: "datetime \<Rightarrow> int \<Rightarrow> exn + datetime" where
  "datetime_sub t delta = (if t - delta < 0 then Inl OverflowError else Inr (t - delta))"

text \<open>Lines 168 to 173: the pair \<open>(start_time, end_time)\<close>.\<close>

definition query_window :: "nat \<Rightarrow> int \<Rightarrow> exn + datetime option \<times> datetime option" where
  "query_window clk interval =
     (if interval \<noteq> 20 then
        (let end_time = utcnow clk
         in case datetime_sub end_time (timedelta_days 365) of
              Inl e \<Rightarrow> Inl e
            | Inr start_time \<Rightarrow> Inr (Some start_time, Some end_time))
      else
        (let end_time = None; start_time = None in Inr (start_time, end_time)))"

text \<open>
  Line 212: \<^verbatim>\<open>x / (interval * 10)\<close> raises \<open>ZeroDivisionError\<close> for a zero divisor and
  \<open>OverflowError\<close> when the quotient, rounded to the nearest float, leaves the float
  range, that is when its magnitude reaches \<open>2 ^ 1024 - 2 ^ 970\<close>. The comprehension
  divides once for each value, in order, and stops at the first division that raises.
\<close>

definition true_div :: "int \<Rightarrow> int \<Rightarrow> exn + quotient" where
  "true_div x d =
     (if d = 0 then Inl ZeroDivisionError
      else if (2 ^ 1024 - 2 ^ 970) * \<bar>d\<bar> \<le> \<bar>x\<bar> then Inl OverflowError
      else Inr (Quot x d))"

fun scaled :: "int \<Rightarrow> int list \<Rightarrow> exn + quotient list" where
  "scaled interval [] = Inr []"
| "scaled interval (x # xs) =
     (case true_div x (interval * 10) of
        Inl e \<Rightarrow> Inl e
      | Inr q \<Rightarrow>
          (case scaled interval xs of
             Inl e \<Rightarrow> Inl e
           | Inr qs \<Rightarrow> Inr (q # qs)))"

definition instance_label :: "MetricSeries \<Rightarrow> string" where
  "instance_label m = (if instance_m (id_s m) \<noteq> [] then instance_m (id_s m) else ''(aggregate)'')"

text \<open>Lines 207 to 212: one \<^verbatim>\<open>plot\<close> call for each series, two for \<^verbatim>\<open>cpu.ready\<close>.\<close>

fun plot_loop ::
  "env \<Rightarrow> CounterInfo \<Rightarrow> int \<Rightarrow> datetime list \<Rightarrow> MetricSeries list \<Rightarrow> unit io" where
  "plot_loop ev counter interval timestamps [] = io_ret ()"
| "plot_loop ev counter interval timestamps (m # ms) =
     (let vals = value_s m; lbl = instance_label m in
      io_bind (call (PlotEv Ax1 timestamps (Raw vals) lbl)
                 (plot ev Ax1 timestamps (Raw vals) lbl)) (\<lambda>_.
      io_bind (if name counter = ''cpu.ready'' then
                 io_bind (lift (scaled interval vals)) (\<lambda>ys.
                 call (PlotEv Ax2 timestamps (Scaled ys) lbl)
                   (plot ev Ax2 timestamps (Scaled ys) lbl))
               else io_ret ()) (\<lambda>_.
      plot_loop ev counter interval timestamps ms)))"

text \<open>Lines 190 to 224: the graph of the first record, then the disconnect.\<close>

definition main_graph :: "env \<Rightarrow> entity \<Rightarrow> CounterInfo \<Rightarrow> int \<Rightarrow> EntityMetric \<Rightarrow> unit io" where
  "main_graph ev mo counter interval rec =
     (let timestamps = map timestamp (sampleInfo rec) in
      io_bind (emit (SubplotsEv (name counter = ''cpu.ready''))) (\<lambda>_.
      io_bind (plot_loop ev counter interval timestamps (value_r rec)) (\<lambda>_.
      io_bind (emit (ShowEv (name counter @ '' ('' @ label counter @ '')'')
                       (name counter @ '' on '' @ name_e mo @ [CHR 0x0A] @ summary counter))) (\<lambda>_.
      emit DisconnectEv))))"

text \<open>Lines 167 to 188, then the graph.\<close>

definition main_query :: "env \<Rightarrow> perf_mgr \<Rightarrow> entity \<Rightarrow> int \<Rightarrow> CounterInfo \<Rightarrow> unit io" where
  "main_query ev pm mo interval counter =
     io_bind (lift (query_window (clock ev) interval)) (\<lambda>(start_time, end_time).
     (let metric_id = \<lparr>counterId_m = id_c counter, instance_m = ''*''\<rparr>;
          spec = \<lparr>entity_q = mo, metricId = [metric_id], startTime = start_time,
                  endTime = end_time, intervalId = interval\<rparr>
      in io_bind (call (QueryPerfEv [spec]) (QueryPerf pm [spec])) (\<lambda>perf_data.
         (case perf_data of
            [] \<Rightarrow>
              io_bind (emit (PrintEv (''No data returned for '' @ name counter @ ''.''))) (\<lambda>_.
              emit DisconnectEv)
          | rec # _ \<Rightarrow> main_graph ev mo counter interval rec))))"

text \<open>Lines 121 to 165: the sessions and the five prompts, then the query.\<close>

definition main :: "env \<Rightarrow> unit io" where
  "main ev =
     io_bind (enable_guest (service ev) (args_host ev) (args_user ev) (args_password ev))
       (\<lambda>(session_cookie_value, guest_metrics).
     io_bind (emit (StubEv (args_host ev)
                (''vmware_soap_session='' @ str_opt session_cookie_value))) (\<lambda>_.
     io_bind (lift (ask_type ev)) (\<lambda>type.
     io_bind (lift (RetrieveContent ev)) (\<lambda>cont.
     io_bind (get_entities cont type) (\<lambda>entities.
     io_bind (lift (ask_mo ev (map (\<lambda>h. (name_e h, h)) entities))) (\<lambda>mo.
     (let pm = perfManager cont in
     io_bind (lift (ask_interval ev (map (\<lambda>(i, title). (title, i)) (get_intervals pm))))
       (\<lambda>interval.
     io_bind (lift (ask_mask ev)) (\<lambda>answer.
     (let msk = or_None answer in
     io_bind (lift (get_counters pm mo interval)) (\<lambda>entity_counters.
     io_bind (lift (filtered_counters msk (all_counters entity_counters guest_metrics)))
       (\<lambda>filtered.
     io_bind (lift (ask_counter ev (map (\<lambda>counter. (counter_title counter, counter)) filtered)))
       (\<lambda>counter.
     main_query ev pm mo interval counter)))))))))))))"

section \<open>The specification's notions\<close>

text \<open>
  The decomposition of a number of seconds into days, hours, minutes and seconds, and
  the rendering the specification describes: the components in the order d, h, m, s,
  zero components left out, \<open>0s\<close> when all are zero.
\<close>

definition decomposes :: "int \<Rightarrow> int \<Rightarrow> int \<Rightarrow> int \<Rightarrow> int \<Rightarrow> bool" where
  "decomposes n d h m s \<longleftrightarrow>
     n = d * 86400 + h * 3600 + m * 60 + s \<and>
     0 \<le> h \<and> h < 24 \<and> 0 \<le> m \<and> m < 60 \<and> 0 \<le> s \<and> s < 60"

definition readable_spec :: "int \<Rightarrow> int \<Rightarrow> int \<Rightarrow> int \<Rightarrow> string" where
  "readable_spec d h m s =
     (if d = 0 \<and> h = 0 \<and> m = 0 \<and> s = 0 then ''0s''
      else join '' '' (map (\<lambda>(v, u). str_int v @ u)
             (filter (\<lambda>(v, u). v \<noteq> 0) [(d, ''d''), (h, ''h''), (m, ''m''), (s, ''s'')])))"


text \<open>The mapping lists a run has submitted with \<^verbatim>\<open>UpdateCounterLevelMapping\<close>.\<close>

fun submitted :: "event list \<Rightarrow> CounterLevelMapping list list" where
  "submitted [] = []"
| "submitted (UpdateCounterLevelMappingEv ms # tr) = ms # submitted tr"
| "submitted (_ # tr) = submitted tr"

text \<open>
  The events before the performance query: neither the query nor the disconnect.
\<close>

fun quiet_ev :: "event \<Rightarrow> bool" where
  "quiet_ev (QueryPerfEv specs) = False"
| "quiet_ev DisconnectEv = False"
| "quiet_ev ev = True"

definition quiet :: "'a io \<Rightarrow> bool" where
  "quiet m = list_all quiet_ev (fst m)"



section \<open>Example runs\<close>

text \<open>
  A server with two counters, \<open>cpu.ready\<close> (id 6) and \<open>net.usage\<close> (id 143), one virtual
  machine, one historical interval, and a user who takes the first choice of every menu and
  the 300 second interval. The cookie jar, the answer to the filter prompt, the answer to
  the performance query and the plotting library are left open.
\<close>

definition example_counters :: "PerfCounterInfo list" where
  "example_counters =
     [\<lparr>key = 6, groupInfo_key = ''cpu'', nameInfo_key = ''ready'', rollupType = ''summation'',
       unitInfo_label = ''ms'', nameInfo_summary = ''Ready time''\<rparr>,
      \<lparr>key = 143, groupInfo_key = ''net'', nameInfo_key = ''usage'', rollupType = ''average'',
       unitInfo_label = ''KBps'', nameInfo_summary = ''Network usage''\<rparr>]"

definition cpu_ready :: CounterInfo where
  "cpu_ready = \<lparr>id_c = 6, name = ''cpu.ready'', rollup_type = ''summation'', label = ''ms'',
                 summary = ''Ready time''\<rparr>"

definition net_usage :: CounterInfo where
  "net_usage = \<lparr>id_c = 143, name = ''net.usage'', rollup_type = ''average'', label = ''KBps'',
                 summary = ''Network usage''\<rparr>"

definition example_service :: "string option \<Rightarrow> raw_service" where
  "example_service cookie =
     \<lparr>Login = (\<lambda>user password. Inr ()),
      RetrieveServiceContent = Inr (''PerformanceManager'', ''PerfMgr''),
      QueryPerfCounterInt = Inr example_counters,
      UpdateCounterLevelMapping = (\<lambda>mappings. Inr ()),
      cookies = (\<lambda>n. if n = ''vmware_soap_session'' then cookie else None)\<rparr>"

text \<open>The same server, refusing the login.\<close>

definition refusing_service :: raw_service where
  "refusing_service =
     \<lparr>Login = (\<lambda>user password. Inl (External ''Fault'')),
      RetrieveServiceContent = Inr (''PerformanceManager'', ''PerfMgr''),
      QueryPerfCounterInt = Inr example_counters,
      UpdateCounterLevelMapping = (\<lambda>mappings. Inr ()),
      cookies = (\<lambda>n. None)\<rparr>"

definition first_choice :: "(string \<times> 'a) list \<Rightarrow> exn + 'a" where
  "first_choice choices =
     (case choices of [] \<Rightarrow> Inl (External ''ValueError'') | (title, v) # rest \<Rightarrow> Inr v)"

definition vm1 :: entity where
  "vm1 = \<lparr>name_e = ''vm1'', moid = ''vm-1''\<rparr>"

text \<open>A performance query answered with the same records whatever is asked.\<close>

definition answers :: "EntityMetric list \<Rightarrow> QuerySpec list \<Rightarrow> exn + EntityMetric list" where
  "answers recs specs = Inr recs"

definition example_content :: "(QuerySpec list \<Rightarrow> exn + EntityMetric list) \<Rightarrow> content" where
  "example_content answer_query =
     \<lparr>perfManager =
        \<lparr>historicalInterval =
           [\<lparr>samplingPeriod = 300, name_i = ''Past day'', level = 1, length_i = 86400\<rparr>],
         perfCounter = example_counters,
         QueryAvailablePerfMetric = (\<lambda>mo interval. Inr [\<lparr>counterId_m = 6, instance_m = []\<rparr>]),
         QueryPerf = answer_query\<rparr>,
      CreateContainerView = (\<lambda>type. Inr [vm1])\<rparr>"

definition example_env ::
  "string option \<Rightarrow> (QuerySpec list \<Rightarrow> exn + EntityMetric list)
     \<Rightarrow> (axis \<Rightarrow> datetime list \<Rightarrow> ydata \<Rightarrow> string \<Rightarrow> exn + unit) \<Rightarrow> env" where
  "example_env answer_mask answer_query plotter =
     \<lparr>args_host = ''vc'', args_user = ''root'', args_password = ''pw'',
      service = example_service (Some ''52e1''),
      ask_type = Inr VirtualMachine,
      RetrieveContent = Inr (example_content answer_query),
      ask_mo = first_choice,
      ask_interval = (\<lambda>choices. Inr 300),
      ask_mask = Inr answer_mask,
      ask_counter = first_choice,
      plot = plotter,
      clock = 1762214400000000\<rparr>"

text \<open>The query the example runs send for a counter: the clock reads 2025-11-04 00:00:00.\<close>

definition example_spec :: "int \<Rightarrow> QuerySpec" where
  "example_spec counter_id =
     \<lparr>entity_q = vm1, metricId = [\<lparr>counterId_m = counter_id, instance_m = ''*''\<rparr>],
      startTime = Some 63866275200000000, endTime = Some 63897811200000000, intervalId = 300\<rparr>"



text \<open>
  Two plotting libraries: one draws whatever it is given, one raises \<open>ValueError\<close> when
  the two sequences differ in length.
\<close>

definition accepting_plot :: "axis \<Rightarrow> datetime list \<Rightarrow> ydata \<Rightarrow> string \<Rightarrow> exn + unit" where
  "accepting_plot ax xs ys lbl = Inr ()"


section \<open>Running with effects: basic facts\<close>

lemma io_bind_lift [simp]:
  "io_bind (lift (Inl e)) f = ([], Inl e)"
  "io_bind (lift (Inr x)) f = f x"
  by (simp_all add: io_bind_def lift_def split: prod.splits)

lemma io_bind_call [simp]:
  "io_bind (call ev (Inl e)) f = ([ev], Inl e)"
  "io_bind (call ev (Inr x)) f = (ev # fst (f x), snd (f x))"
  by (simp_all add: io_bind_def call_def split: prod.splits)

lemma io_bind_emit [simp]:
  "io_bind (emit ev) f = (ev # fst (f ()), snd (f ()))"
  by (simp add: io_bind_def emit_def split: prod.splits)

lemma io_bind_ret [simp]: "io_bind (io_ret x) f = f x"
  by (simp add: io_bind_def io_ret_def split: prod.splits)

lemma io_bind_pair [simp]:
  "io_bind (tr, Inl e) f = (tr, Inl e)"
  "io_bind (tr, Inr x) f = (tr @ fst (f x), snd (f x))"
  by (simp_all add: io_bind_def split: prod.splits)

lemma emit_parts [simp]: "fst (emit ev) = [ev]" "snd (emit ev) = Inr ()"
  by (simp_all add: emit_def)



lemma quiet_lift [simp]: "quiet (lift r)"
  by (simp add: quiet_def lift_def)

lemma quiet_ret [simp]: "quiet (io_ret x)"
  by (simp add: quiet_def io_ret_def)

lemma quiet_emit [simp]: "quiet (emit ev) = quiet_ev ev"
  by (simp add: quiet_def emit_def)

lemma quiet_call [simp]: "quiet (call ev r) = quiet_ev ev"
  by (simp add: quiet_def call_def)

lemma quiet_bind:
  assumes "quiet m" and "\<And>x. snd m = Inr x \<Longrightarrow> quiet (f x)"
  shows "quiet (io_bind m f)"
  using assms by (cases m) (auto simp: quiet_def io_bind_def split: sum.splits prod.splits)

lemma quiet_evD:
  assumes "list_all quiet_ev tr"
  shows "DisconnectEv \<notin> set tr" and "QueryPerfEv specs \<notin> set tr"
  using assms by (auto simp: list_all_iff)

lemma io_bind_prefix:
  assumes q: "quiet m"
    and fail: "\<forall>tr e. list_all quiet_ev tr \<longrightarrow> P (tr, Inl e)"
    and pre: "\<forall>pre tr r. list_all quiet_ev pre \<longrightarrow> P (tr, r) \<longrightarrow> P (pre @ tr, r)"
    and cont: "\<And>x. snd m = Inr x \<Longrightarrow> P (f x)"
  shows "P (io_bind m f)"
proof (cases m)
  case (Pair tr r)
  with q have tr: "list_all quiet_ev tr" by (simp add: quiet_def)
  show ?thesis
  proof (cases r)
    case (Inl e)
    with Pair tr fail show ?thesis by (simp add: io_bind_def)
  next
    case (Inr x)
    with Pair have "P (f x)" by (intro cont) simp
    then have "P (tr @ fst (f x), snd (f x))" using tr pre by simp
    with Pair Inr show ?thesis by (cases "f x") (simp add: io_bind_def)
  qed
qed

section \<open>The readable duration\<close>

lemma divmod_step:
  fixes q r k :: int
  assumes "0 \<le> r" "r < k"
  shows "(q * k + r) div k = q \<and> (q * k + r) mod k = r"
  using assms by (simp add: div_pos_pos_trivial)

lemma regroup:
  fixes c r2 r1 r0 :: int
  shows "((c * 24 + r2) * 60 + r1) * 60 + r0 = c * 86400 + r2 * 3600 + r1 * 60 + r0"
  by (simp add: algebra_simps)

lemma decomposes_divmod:
  "decomposes n (n div 60 div 60 div 24) (n div 60 div 60 mod 24) (n div 60 mod 60) (n mod 60)"
proof -
  define a where "a = n div 60"
  define b where "b = a div 60"
  have "b div 24 * 86400 + b mod 24 * 3600 + a mod 60 * 60 + n mod 60
          = ((b div 24 * 24 + b mod 24) * 60 + a mod 60) * 60 + n mod 60"
    by (rule regroup [symmetric])
  also have "\<dots> = (b * 60 + a mod 60) * 60 + n mod 60"
    by (simp only: div_mult_mod_eq)
  also have "\<dots> = a * 60 + n mod 60"
    unfolding b_def by (simp only: div_mult_mod_eq)
  also have "\<dots> = n"
    unfolding a_def by (simp only: div_mult_mod_eq)
  finally have "n = b div 24 * 86400 + b mod 24 * 3600 + a mod 60 * 60 + n mod 60"
    by (rule sym)
  then have eq: "n = n div 60 div 60 div 24 * 86400 + n div 60 div 60 mod 24 * 3600
                     + n div 60 mod 60 * 60 + n mod 60"
    unfolding a_def b_def .
  have bounds: "0 \<le> n div 60 div 60 mod 24" "n div 60 div 60 mod 24 < 24"
    "0 \<le> n div 60 mod 60" "n div 60 mod 60 < 60" "0 \<le> n mod 60" "n mod 60 < 60"
    by simp_all
  show ?thesis
    unfolding decomposes_def using eq bounds by blast
qed

lemma decomposes_determined:
  assumes "decomposes n d h m s"
  shows "s = n mod 60 \<and> m = n div 60 mod 60 \<and> h = n div 60 div 60 mod 24 \<and> d = n div 60 div 60 div 24"
proof -
  from assms have n0: "n = d * 86400 + h * 3600 + m * 60 + s" and s: "0 \<le> s" "s < 60"
    and m: "0 \<le> m" "m < 60" and h: "0 \<le> h" "h < 24"
    unfolding decomposes_def by blast+
  have n: "n = (d * 1440 + h * 60 + m) * 60 + s"
    unfolding n0 by (simp add: algebra_simps)
  have 1: "n div 60 = d * 1440 + h * 60 + m \<and> n mod 60 = s"
    unfolding n using divmod_step [OF s] by blast
  have e: "d * 1440 + h * 60 + m = (d * 24 + h) * 60 + m" by simp
  have "(d * 1440 + h * 60 + m) div 60 = d * 24 + h \<and> (d * 1440 + h * 60 + m) mod 60 = m"
    unfolding e by (rule divmod_step [OF m])
  with 1 have 2: "n div 60 div 60 = d * 24 + h \<and> n div 60 mod 60 = m"
    by metis
  have "(d * 24 + h) div 24 = d \<and> (d * 24 + h) mod 24 = h"
    by (rule divmod_step [OF h])
  with 2 have 3: "n div 60 div 60 div 24 = d \<and> n div 60 div 60 mod 24 = h"
    by metis
  show ?thesis using 1 2 3 by simp
qed


lemma join_nonempty: "x \<noteq> [] \<Longrightarrow> join sep (x # xs) \<noteq> []"
  by (cases xs) auto

lemma parts_spec:
  "(let parts = [];
        parts = (if d \<noteq> 0 then parts @ [str_int d @ ''d''] else parts);
        parts = (if h \<noteq> 0 then parts @ [str_int h @ ''h''] else parts);
        parts = (if m \<noteq> 0 then parts @ [str_int m @ ''m''] else parts);
        parts = (if s \<noteq> 0 then parts @ [str_int s @ ''s''] else parts);
        joined = join '' '' parts
    in if joined = [] then ''0s'' else joined) = readable_spec d h m s"
  unfolding readable_spec_def by (simp add: Let_def join_nonempty)

lemma seconds_to_readable_spec:
  "seconds_to_readable n =
     readable_spec (n div 60 div 60 div 24) (n div 60 div 60 mod 24) (n div 60 mod 60) (n mod 60)"
  unfolding seconds_to_readable_def divmod_def Let_def prod.case
  by (rule parts_spec [unfolded Let_def])

lemma decomposes_zero:
  assumes "decomposes n d h m s" and "0 \<le> n"
  shows "0 \<le> d" and "(d = 0 \<and> h = 0 \<and> m = 0 \<and> s = 0) \<longleftrightarrow> n = 0"
proof -
  from assms(1) have n: "n = d * 86400 + h * 3600 + m * 60 + s" and b: "0 \<le> s" "s < 60"
    "0 \<le> m" "m < 60" "0 \<le> h" "h < 24"
    unfolding decomposes_def by blast+
  show d: "0 \<le> d"
  proof (rule ccontr)
    assume "\<not> 0 \<le> d"
    then have "d \<le> - 1" by simp
    then have "d * 86400 \<le> - 86400" by simp
    with n b have "n < 0" by linarith
    with assms(2) show False by simp
  qed
  show "(d = 0 \<and> h = 0 \<and> m = 0 \<and> s = 0) \<longleftrightarrow> n = 0"
  proof
    assume "d = 0 \<and> h = 0 \<and> m = 0 \<and> s = 0"
    with n show "n = 0" by simp
  next
    assume z: "n = 0"
    have "0 \<le> d * 86400" "0 \<le> h * 3600" "0 \<le> m * 60" using d b by simp_all
    with n z b have "d * 86400 = 0 \<and> h * 3600 = 0 \<and> m * 60 = 0 \<and> s = 0" by linarith
    then show "d = 0 \<and> h = 0 \<and> m = 0 \<and> s = 0" by simp
  qed
qed

text \<open>
  Claim C8. For every nonnegative number of seconds \<open>n\<close>, \<^verbatim>\<open>seconds_to_readable\<close>
  renders the one decomposition \<open>n = d * 86400 + h * 3600 + m * 60 + s\<close> with
  \<open>0 \<le> h < 24\<close>, \<open>0 \<le> m < 60\<close>, \<open>0 \<le> s < 60\<close>: the components in the order d, h, m, s,
  zero components left out, and \<open>0s\<close> for \<open>n = 0\<close>.
\<close>

theorem seconds_to_readable_decomposition:
  assumes "0 \<le> n"
  shows "\<exists>d h m s. 0 \<le> d \<and> decomposes n d h m s \<and>
           (\<forall>d' h' m' s'. decomposes n d' h' m' s' \<longrightarrow> d' = d \<and> h' = h \<and> m' = m \<and> s' = s) \<and>
           seconds_to_readable n = readable_spec d h m s \<and>
           (n = 0 \<longrightarrow> seconds_to_readable n = ''0s'')"
proof -
  let ?d = "n div 60 div 60 div 24" and ?h = "n div 60 div 60 mod 24"
  let ?m = "n div 60 mod 60" and ?s = "n mod 60"
  have dec: "decomposes n ?d ?h ?m ?s" by (rule decomposes_divmod)
  have nonneg: "0 \<le> ?d" using dec assms by (rule decomposes_zero(1))
  have uniq: "\<forall>d' h' m' s'. decomposes n d' h' m' s' \<longrightarrow>
                d' = ?d \<and> h' = ?h \<and> m' = ?m \<and> s' = ?s"
    using decomposes_determined by blast
  have spec: "seconds_to_readable n = readable_spec ?d ?h ?m ?s"
    by (rule seconds_to_readable_spec)
  have zero: "n = 0 \<longrightarrow> seconds_to_readable n = ''0s''"
  proof
    assume "n = 0"
    with decomposes_zero(2) [OF dec assms]
    have "?d = 0 \<and> ?h = 0 \<and> ?m = 0 \<and> ?s = 0" by blast
    then have "readable_spec ?d ?h ?m ?s = ''0s''"
      unfolding readable_spec_def by (rule if_P)
    with spec show "seconds_to_readable n = ''0s''" by (rule trans)
  qed
  show ?thesis
    using dec nonneg uniq spec zero by blast
qed

theorem seconds_to_readable_decomposition_witness:
  "(0::int) \<le> 90061 \<and> decomposes 90061 1 1 1 1 \<and>
   seconds_to_readable 90061 = readable_spec 1 1 1 1 \<and>
   readable_spec 1 1 1 1 = ''1d 1h 1m 1s''"
proof -
  have d: "decomposes 90061 1 1 1 1" by (simp add: decomposes_def)
  obtain d h m s where
    u: "\<forall>d' h' m' s'. decomposes 90061 d' h' m' s' \<longrightarrow> d' = d \<and> h' = h \<and> m' = m \<and> s' = s"
    and r: "seconds_to_readable 90061 = readable_spec d h m s"
    using seconds_to_readable_decomposition [of 90061] by auto
  from u d have "1 = d \<and> 1 = h \<and> 1 = m \<and> 1 = s" by blast
  with r have "seconds_to_readable 90061 = readable_spec 1 1 1 1" by simp
  moreover have "readable_spec 1 1 1 1 = ''1d 1h 1m 1s''"
    by (simp add: readable_spec_def str_int_def str_nat.simps digit_char_def)
  ultimately show ?thesis using d by simp
qed

section \<open>The interval catalog\<close>

lemma get_intervals_loop_map:
  "get_intervals_loop hs acc =
     acc @ map (\<lambda>i. (samplingPeriod i, interval_title i (seconds_to_readable (length_i i)))) hs"
  by (induction hs arbitrary: acc) (simp_all add: Let_def)

lemma one_hour: "seconds_to_readable 3600 = ''1h''"
  by (simp add: seconds_to_readable_def divmod_def str_int_def str_nat.simps digit_char_def)

text \<open>
  Claim C9. For every list of historical intervals of the server, \<^verbatim>\<open>get_intervals\<close>
  returns the realtime entry first, with id 20 and a title showing level 1 and the
  retention of 3600 seconds (rendered \<open>1h\<close>), then one entry for each historical interval
  in the server's order, with the interval's sampling period as id and a title showing
  its period, name, level and retention.
\<close>

theorem get_intervals_catalog:
  "get_intervals pm =
     (20, ''  ID: 20 seconds (Realtime) - Level 1, Retained for '' @ seconds_to_readable 3600)
     # map (\<lambda>i. (samplingPeriod i,
                 ''  ID: '' @ str_int (samplingPeriod i) @ ''s ('' @ name_i i @ '') - Level ''
                   @ str_int (level i) @ '', Retained for ''
                   @ seconds_to_readable (length_i i)))
         (historicalInterval pm)
   \<and> seconds_to_readable 3600 = ''1h''"
  unfolding get_intervals_def
  by (simp add: get_intervals_loop_map interval_title_def one_hour)

section \<open>The session with the raw endpoint\<close>

lemma enable_guest_loop_map:
  "enable_guest_loop cs ms rs =
     (ms @ map (\<lambda>c. \<lparr>counterId = key c, aggregateLevel = 4\<rparr>) cs,
      rs @ map (\<lambda>c. \<lparr>id_c = key c, name = groupInfo_key c @ ''.'' @ nameInfo_key c,
                       rollup_type = rollupType c, label = unitInfo_label c,
                       summary = nameInfo_summary c\<rparr>) cs)"
  by (induction cs arbitrary: ms rs) simp_all

lemma enable_guest_returns:
  assumes "Login srv user password = Inr ()"
    and "RetrieveServiceContent srv = Inr ref"
    and "QueryPerfCounterInt srv = Inr counters"
    and "UpdateCounterLevelMapping srv
           (map (\<lambda>c. \<lparr>counterId = key c, aggregateLevel = 4\<rparr>) counters) = Inr ()"
  shows "enable_guest srv addr user password =
     ([LoginEv user password, PrintEv (''Type: '' @ fst ref), PrintEv (''Value: '' @ snd ref),
       UpdateCounterLevelMappingEv (map (\<lambda>c. \<lparr>counterId = key c, aggregateLevel = 4\<rparr>) counters)],
      Inr (cookies srv ''vmware_soap_session'',
           map (\<lambda>c. \<lparr>id_c = key c, name = groupInfo_key c @ ''.'' @ nameInfo_key c,
                       rollup_type = rollupType c, label = unitInfo_label c,
                       summary = nameInfo_summary c\<rparr>) counters))"
  unfolding enable_guest_def using assms
  by (simp add: enable_guest_loop_map io_ret_def)

text \<open>
  Claim C10. When its four requests succeed, \<^verbatim>\<open>enable_guest\<close> submits one list of level
  mappings and returns one list of descriptors; both have the length of the server's counter
  table and follow its order, every mapping has level 4, and mapping and descriptor at the
  same position carry the id of the counter at that position.
\<close>

theorem enable_guest_one_mapping_per_counter:
  assumes "Login srv user password = Inr ()"
    and "RetrieveServiceContent srv = Inr ref"
    and "QueryPerfCounterInt srv = Inr counters"
    and "UpdateCounterLevelMapping srv
           (map (\<lambda>c. \<lparr>counterId = key c, aggregateLevel = 4\<rparr>) counters) = Inr ()"
  shows "\<exists>tr tok mappings result.
           enable_guest srv addr user password = (tr, Inr (tok, result)) \<and>
           submitted tr = [mappings] \<and>
           length mappings = length counters \<and> length result = length counters \<and>
           map counterId mappings = map key counters \<and>
           map aggregateLevel mappings = replicate (length counters) 4 \<and>
           map id_c result = map key counters"
  unfolding enable_guest_returns [OF assms]
  by (simp add: comp_def map_replicate_const)

text \<open>
  Claim C3, as the script has it. \<^verbatim>\<open>enable_guest\<close> does not look at the session cookie:
  when its four requests succeed it returns what the cookie jar holds under
  \<open>vmware_soap_session\<close>, the token or the absent value alike; when the login request
  raises, it ends with that exception.
\<close>

theorem enable_guest_returns_cookie_lookup:
  "(Login srv user password = Inr () \<and>
    RetrieveServiceContent srv = Inr ref \<and>
    QueryPerfCounterInt srv = Inr counters \<and>
    UpdateCounterLevelMapping srv
      (map (\<lambda>c. \<lparr>counterId = key c, aggregateLevel = 4\<rparr>) counters) = Inr () \<longrightarrow>
      (\<exists>result. snd (enable_guest srv addr user password) =
         Inr (cookies srv ''vmware_soap_session'', result))) \<and>
   (Login srv user password = Inl e \<longrightarrow> snd (enable_guest srv addr user password) = Inl e)"
proof (intro conjI impI)
  assume "Login srv user password = Inr () \<and>
    RetrieveServiceContent srv = Inr ref \<and>
    QueryPerfCounterInt srv = Inr counters \<and>
    UpdateCounterLevelMapping srv
      (map (\<lambda>c. \<lparr>counterId = key c, aggregateLevel = 4\<rparr>) counters) = Inr ()"
  then show "\<exists>result. snd (enable_guest srv addr user password) =
         Inr (cookies srv ''vmware_soap_session'', result)"
    using enable_guest_returns [of srv user password ref counters addr] by simp
next
  assume "Login srv user password = Inl e"
  then show "snd (enable_guest srv addr user password) = Inl e"
    unfolding enable_guest_def by simp
qed

section \<open>The candidate counters\<close>

text \<open>
  Claim C5, as the script has it. The candidate list is the entity's list followed by the
  guest list, with nothing removed: it holds every descriptor of either list, and its ids
  are distinct only when they are distinct in each list and no id occurs in both.
\<close>

theorem all_counters_concatenation:
  "all_counters entity_counters guest_metrics = entity_counters @ guest_metrics \<and>
   set (all_counters entity_counters guest_metrics) = set entity_counters \<union> set guest_metrics \<and>
   (distinct (map id_c (all_counters entity_counters guest_metrics)) \<longleftrightarrow>
      distinct (map id_c entity_counters) \<and> distinct (map id_c guest_metrics) \<and>
      id_c ` set entity_counters \<inter> id_c ` set guest_metrics = {})"
  unfolding all_counters_def by auto

section \<open>The query window\<close>

lemma days_365: "timedelta_days 365 = 31536000000000"
  by (simp add: timedelta_days_def)

lemma utcnow_late: "timedelta_days 365 \<le> utcnow clk"
  unfolding utcnow_def timedelta_days_def by simp

lemma query_window_value:
  "query_window clk interval =
     Inr (if interval \<noteq> 20 then (Some (utcnow clk - timedelta_days 365), Some (utcnow clk))
          else (None, None))"
  using utcnow_late [of clk]
  unfolding query_window_def datetime_sub_def Let_def by simp




section \<open>The graph and the end of the run\<close>

lemma quiet_enable_guest: "quiet (enable_guest srv addr user password)"
  unfolding enable_guest_def
  by (intro quiet_bind) (simp_all add: quiet_bind split: prod.splits)

lemma quiet_get_entities: "quiet (get_entities cont type)"
  unfolding get_entities_def by (intro quiet_bind) simp_all

lemma quiet_plot_loop: "quiet (plot_loop ev counter interval timestamps ms)"
  by (induction ms) (auto intro!: quiet_bind simp: Let_def)

lemma main_prefix:
  assumes fail: "\<forall>tr e. list_all quiet_ev tr \<longrightarrow> P (tr, Inl e)"
    and pre: "\<forall>pre tr r. list_all quiet_ev pre \<longrightarrow> P (tr, r) \<longrightarrow> P (pre @ tr, r)"
    and query: "\<And>cont mo interval counter.
       RetrieveContent ev = Inr cont \<Longrightarrow> P (main_query ev (perfManager cont) mo interval counter)"
  shows "P (main ev)"
  unfolding main_def Let_def
  apply (rule io_bind_prefix [where P = P, OF quiet_enable_guest fail pre])
  apply (simp only: split_beta)
  apply (rule io_bind_prefix [where P = P, OF _ fail pre], simp)
  apply (rule io_bind_prefix [where P = P, OF _ fail pre], simp)
  apply (rule io_bind_prefix [where P = P, OF _ fail pre], simp)
  apply (rule io_bind_prefix [where P = P, OF quiet_get_entities fail pre])
  apply (rule io_bind_prefix [where P = P, OF _ fail pre], simp)
  apply (rule io_bind_prefix [where P = P, OF _ fail pre], simp)
  apply (rule io_bind_prefix [where P = P, OF _ fail pre], simp)
  apply (rule io_bind_prefix [where P = P, OF _ fail pre], simp)
  apply (rule io_bind_prefix [where P = P, OF _ fail pre], simp)
  apply (rule io_bind_prefix [where P = P, OF _ fail pre], simp)
  apply (rule query)
  apply (simp add: lift_def)
  done







lemma plot_loop_quiet_evs:
  "DisconnectEv \<notin> set (fst (plot_loop ev counter interval ts ms))"
  "QueryPerfEv specs \<notin> set (fst (plot_loop ev counter interval ts ms))"
  using quiet_plot_loop [of ev counter interval ts ms] quiet_evD
  unfolding quiet_def by blast+

lemma main_graph_run:
  "main_graph ev mo counter interval rec =
     (case plot_loop ev counter interval (map timestamp (sampleInfo rec)) (value_r rec) of
        (tr, Inl e) \<Rightarrow> (SubplotsEv (name counter = ''cpu.ready'') # tr, Inl e)
      | (tr, Inr u) \<Rightarrow>
          (SubplotsEv (name counter = ''cpu.ready'') # tr @
             [ShowEv (name counter @ '' ('' @ label counter @ '')'')
                (name counter @ '' on '' @ name_e mo @ [CHR 0x0A] @ summary counter),
              DisconnectEv], Inr ()))"
proof -
  obtain tr r where pl:
    "plot_loop ev counter interval (map timestamp (sampleInfo rec)) (value_r rec) = (tr, r)"
    by (cases "plot_loop ev counter interval (map timestamp (sampleInfo rec)) (value_r rec)")
  show ?thesis
    unfolding main_graph_def Let_def pl by (cases r) simp_all
qed


lemma main_graph_tidy:
  "(snd (main_graph ev mo counter interval rec) = Inr () \<longrightarrow>
      fst (main_graph ev mo counter interval rec) \<noteq> [] \<and>
      last (fst (main_graph ev mo counter interval rec)) = DisconnectEv) \<and>
   ((\<exists>e. snd (main_graph ev mo counter interval rec) = Inl e) \<longrightarrow>
      DisconnectEv \<notin> set (fst (main_graph ev mo counter interval rec)))"
  using plot_loop_quiet_evs(1) [of ev counter interval "map timestamp (sampleInfo rec)" "value_r rec"]
  by (auto simp: main_graph_run split: prod.splits sum.splits)

lemma main_graph_no_query:
  "QueryPerfEv specs \<notin> set (fst (main_graph ev mo counter interval rec))"
  using plot_loop_quiet_evs(2) [of specs ev counter interval "map timestamp (sampleInfo rec)" "value_r rec"]
  by (auto simp: main_graph_run split: prod.splits sum.splits)

lemma query_window_returns:
  "\<exists>start_time end_time. query_window clk interval = Inr (start_time, end_time)"
  unfolding query_window_value by simp

lemma main_query_run:
  "\<exists>spec. main_query ev pm mo interval counter =
     (case QueryPerf pm [spec] of
        Inl e \<Rightarrow> ([QueryPerfEv [spec]], Inl e)
      | Inr [] \<Rightarrow>
          ([QueryPerfEv [spec], PrintEv (''No data returned for '' @ name counter @ ''.''),
            DisconnectEv], Inr ())
      | Inr (rec # rest) \<Rightarrow>
          (QueryPerfEv [spec] # fst (main_graph ev mo counter interval rec),
           snd (main_graph ev mo counter interval rec)))"
proof -
  obtain s e where w: "query_window (clock ev) interval = Inr (s, e)"
    using query_window_returns by blast
  show ?thesis
    unfolding main_query_def w Let_def
    by (rule exI [where x = "\<lparr>entity_q = mo,
           metricId = [\<lparr>counterId_m = id_c counter, instance_m = ''*''\<rparr>],
           startTime = s, endTime = e, intervalId = interval\<rparr>"])
       (simp split: sum.splits list.splits)
qed


text \<open>
  Claim C7, as the script has it. On the paths on which \<^verbatim>\<open>main\<close> returns, the normal
  completion and the outcome without data, the disconnect is the last call it makes; a run
  that an exception ends makes no disconnect call.
\<close>

theorem main_disconnects_when_it_returns:
  "(snd (main ev) = Inr () \<longrightarrow> fst (main ev) \<noteq> [] \<and> last (fst (main ev)) = DisconnectEv) \<and>
   ((\<exists>e. snd (main ev) = Inl e) \<longrightarrow> DisconnectEv \<notin> set (fst (main ev)))"
proof -
  define P :: "unit io \<Rightarrow> bool" where
    "P = (\<lambda>m. (snd m = Inr () \<longrightarrow> fst m \<noteq> [] \<and> last (fst m) = DisconnectEv) \<and>
              ((\<exists>e. snd m = Inl e) \<longrightarrow> DisconnectEv \<notin> set (fst m)))"
  have fail: "\<forall>tr e. list_all quiet_ev tr \<longrightarrow> P (tr, Inl e)"
    using quiet_evD(1) by (simp add: P_def)
  have pre: "\<forall>pre tr r. list_all quiet_ev pre \<longrightarrow> P (tr, r) \<longrightarrow> P (pre @ tr, r)"
    using quiet_evD(1) by (auto simp: P_def)
  have query: "P (main_query ev pm mo interval counter)" for pm mo interval counter
  proof -
    obtain spec where run: "main_query ev pm mo interval counter =
       (case QueryPerf pm [spec] of
          Inl e \<Rightarrow> ([QueryPerfEv [spec]], Inl e)
        | Inr [] \<Rightarrow>
            ([QueryPerfEv [spec], PrintEv (''No data returned for '' @ name counter @ ''.''),
              DisconnectEv], Inr ())
        | Inr (rec # rest) \<Rightarrow>
            (QueryPerfEv [spec] # fst (main_graph ev mo counter interval rec),
             snd (main_graph ev mo counter interval rec)))"
      using main_query_run by blast
    show ?thesis
      unfolding run P_def using main_graph_tidy [of ev mo counter interval]
      by (auto split: sum.splits list.splits)
  qed
  have "P (main ev)"
    by (rule main_prefix [where P = P, OF fail pre]) (rule query)
  then show ?thesis by (simp add: P_def)
qed

text \<open>
  Claim C6. When the performance query of a run returns no records, the run ends without
  an exception, and after the query it only prints the message and disconnects the typed
  session.
\<close>

theorem main_no_data:
  assumes cont: "RetrieveContent ev = Inr cont"
    and asked: "QueryPerfEv specs \<in> set (fst (main ev))"
    and empty: "QueryPerf (perfManager cont) specs = Inr []"
  shows "snd (main ev) = Inr () \<and>
         (\<exists>pre (counter :: CounterInfo). fst (main ev) =
            pre @ [QueryPerfEv specs,
                   PrintEv (''No data returned for '' @ name counter @ ''.''), DisconnectEv])"
proof -
  define P :: "unit io \<Rightarrow> bool" where
    "P = (\<lambda>m. QueryPerfEv specs \<in> set (fst m) \<longrightarrow>
              snd m = Inr () \<and>
              (\<exists>pre (counter :: CounterInfo). fst m =
                 pre @ [QueryPerfEv specs,
                        PrintEv (''No data returned for '' @ name counter @ ''.''),
                        DisconnectEv]))"
  have fail: "\<forall>tr e. list_all quiet_ev tr \<longrightarrow> P (tr, Inl e)"
    using quiet_evD(2) by (simp add: P_def)
  have pre: "\<forall>pre tr r. list_all quiet_ev pre \<longrightarrow> P (tr, r) \<longrightarrow> P (pre @ tr, r)"
  proof (intro allI impI)
    fix pre tr and r :: "exn + unit"
    assume q: "list_all quiet_ev pre" and p: "P (tr, r)"
    show "P (pre @ tr, r)"
      unfolding P_def
    proof
      assume "QueryPerfEv specs \<in> set (fst (pre @ tr, r))"
      with quiet_evD(2) [OF q] have "QueryPerfEv specs \<in> set tr" by simp
      with p have "r = Inr () \<and> (\<exists>p0 (counter :: CounterInfo). tr = p0 @ [QueryPerfEv specs,
                    PrintEv (''No data returned for '' @ name counter @ ''.''), DisconnectEv])"
        unfolding P_def fst_conv snd_conv by blast
      then obtain p0 and counter :: CounterInfo where "r = Inr ()" and
        "tr = p0 @ [QueryPerfEv specs,
                    PrintEv (''No data returned for '' @ name counter @ ''.''), DisconnectEv]"
        by blast
      then have "snd (pre @ tr, r) = Inr () \<and>
                 fst (pre @ tr, r) = (pre @ p0) @ [QueryPerfEv specs,
                    PrintEv (''No data returned for '' @ name counter @ ''.''), DisconnectEv]"
        by simp
      then show "snd (pre @ tr, r) = Inr () \<and>
         (\<exists>pre' (counter :: CounterInfo). fst (pre @ tr, r) =
            pre' @ [QueryPerfEv specs,
                    PrintEv (''No data returned for '' @ name counter @ ''.''), DisconnectEv])"
        by blast
    qed
  qed
  have query: "P (main_query ev (perfManager cont') mo interval counter)"
    if "RetrieveContent ev = Inr cont'" for cont' mo interval counter
  proof -
    from that cont have same: "cont' = cont" by simp
    obtain spec where run: "main_query ev (perfManager cont) mo interval counter =
       (case QueryPerf (perfManager cont) [spec] of
          Inl e \<Rightarrow> ([QueryPerfEv [spec]], Inl e)
        | Inr [] \<Rightarrow>
            ([QueryPerfEv [spec], PrintEv (''No data returned for '' @ name counter @ ''.''),
              DisconnectEv], Inr ())
        | Inr (rec # rest) \<Rightarrow>
            (QueryPerfEv [spec] # fst (main_graph ev mo counter interval rec),
             snd (main_graph ev mo counter interval rec)))"
      using main_query_run by blast
    show ?thesis
      unfolding same P_def
    proof
      assume a: "QueryPerfEv specs \<in> set (fst (main_query ev (perfManager cont) mo interval counter))"
      have "specs = [spec]"
        using a main_graph_no_query [of specs ev mo counter interval]
        unfolding run by (auto split: sum.splits list.splits)
      with empty have e: "QueryPerf (perfManager cont) [spec] = Inr []" by simp
      have "main_query ev (perfManager cont) mo interval counter =
              ([] @ [QueryPerfEv specs,
                     PrintEv (''No data returned for '' @ name counter @ ''.''), DisconnectEv],
               Inr ())"
        unfolding run e using \<open>specs = [spec]\<close> by simp
      then show "snd (main_query ev (perfManager cont) mo interval counter) = Inr () \<and>
         (\<exists>pre (counter' :: CounterInfo). fst (main_query ev (perfManager cont) mo interval counter) =
            pre @ [QueryPerfEv specs,
                   PrintEv (''No data returned for '' @ name counter' @ ''.''), DisconnectEv])"
        by (metis fst_conv snd_conv)
    qed
  qed
  have "P (main ev)"
    by (rule main_prefix [where P = P, OF fail pre]) (rule query)
  with asked show ?thesis by (simp add: P_def)
qed

section \<open>The example runs, evaluated\<close>

lemma example_guest:
  "enable_guest (example_service cookie) ''vc'' ''root'' ''pw'' =
     ([LoginEv ''root'' ''pw'', PrintEv ''Type: PerformanceManager'', PrintEv ''Value: PerfMgr'',
       UpdateCounterLevelMappingEv
         [\<lparr>counterId = 6, aggregateLevel = 4\<rparr>, \<lparr>counterId = 143, aggregateLevel = 4\<rparr>]],
      Inr (cookie, [cpu_ready, net_usage]))"
  by (simp add: enable_guest_def example_service_def example_counters_def io_ret_def
        cpu_ready_def net_usage_def)

lemma example_service_parts:
  "Login (example_service cookie) user password = Inr ()"
  "RetrieveServiceContent (example_service cookie) = Inr (''PerformanceManager'', ''PerfMgr'')"
  "QueryPerfCounterInt (example_service cookie) = Inr example_counters"
  "UpdateCounterLevelMapping (example_service cookie) mappings = Inr ()"
  "cookies (example_service cookie) ''vmware_soap_session'' = cookie"
  by (simp_all add: example_service_def)

lemma example_casefold:
  "casefold ''cpu.ready'' = ''cpu.ready''" "casefold ''net.usage'' = ''net.usage''"
  by (simp_all add: casefold_def casefold_char_def)

lemma example_entity_counters:
  "get_counters (perfManager (example_content answer_query)) mo interval = Inr [cpu_ready]"
  by (simp add: get_counters_def example_content_def counter_info_def example_counters_def
        cpu_ready_def)

lemma example_filtered:
  "filtered_counters (or_None (Some [])) (all_counters [cpu_ready] [cpu_ready, net_usage])
     = Inl TypeError"
  "filtered_counters (or_None (Some ''net'')) (all_counters [cpu_ready] [cpu_ready, net_usage])
     = Inr [net_usage]"
  "filtered_counters (or_None (Some ''cpu'')) (all_counters [cpu_ready] [cpu_ready, net_usage])
     = Inr [cpu_ready, cpu_ready]"
  by (simp_all add: or_None_def all_counters_def startswith_def example_casefold
        cpu_ready_def net_usage_def)

lemma example_content_parts:
  "CreateContainerView (example_content answer_query) type = Inr [vm1]"
  "QueryPerf (perfManager (example_content answer_query)) = answer_query"
  by (simp_all add: example_content_def)

lemma example_window:
  "query_window 1762214400000000 300 = Inr (Some 63866275200000000, Some 63897811200000000)"
  by (simp add: query_window_value utcnow_def timedelta_days_def)

lemma example_env_parts:
  "args_host (example_env answer_mask answer_query plotter) = ''vc''"
  "args_user (example_env answer_mask answer_query plotter) = ''root''"
  "args_password (example_env answer_mask answer_query plotter) = ''pw''"
  "service (example_env answer_mask answer_query plotter) = example_service (Some ''52e1'')"
  "ask_type (example_env answer_mask answer_query plotter) = Inr VirtualMachine"
  "RetrieveContent (example_env answer_mask answer_query plotter)
     = Inr (example_content answer_query)"
  "ask_mo (example_env answer_mask answer_query plotter) = first_choice"
  "ask_interval (example_env answer_mask answer_query plotter) choices = Inr 300"
  "ask_mask (example_env answer_mask answer_query plotter) = Inr answer_mask"
  "ask_counter (example_env answer_mask answer_query plotter) = first_choice"
  "plot (example_env answer_mask answer_query plotter) = plotter"
  "clock (example_env answer_mask answer_query plotter) = 1762214400000000"
  by (simp_all add: example_env_def)

lemma example_counter_parts:
  "id_c cpu_ready = 6" "name cpu_ready = ''cpu.ready''"
  "id_c net_usage = 143" "name net_usage = ''net.usage''"
  "label net_usage = ''KBps''" "summary net_usage = ''Network usage''"
  by (simp_all add: cpu_ready_def net_usage_def)

lemmas example_simps = example_counter_parts
  main_def Let_def example_env_parts example_guest get_entities_def
  example_content_parts first_choice_def example_entity_counters example_filtered
  str_opt_def io_ret_def main_query_def example_window example_spec_def answers_def

lemma example_run_empty_filter:
  "main (example_env (Some []) answer_query plotter) =
     ([LoginEv ''root'' ''pw'', PrintEv ''Type: PerformanceManager'', PrintEv ''Value: PerfMgr'',
       UpdateCounterLevelMappingEv
         [\<lparr>counterId = 6, aggregateLevel = 4\<rparr>, \<lparr>counterId = 143, aggregateLevel = 4\<rparr>],
       StubEv ''vc'' ''vmware_soap_session=52e1'', DestroyViewEv],
      Inl TypeError)"
  by (simp add: example_simps)

lemma example_run_no_data:
  "main (example_env (Some ''cpu'') (answers []) plotter) =
     ([LoginEv ''root'' ''pw'', PrintEv ''Type: PerformanceManager'', PrintEv ''Value: PerfMgr'',
       UpdateCounterLevelMappingEv
         [\<lparr>counterId = 6, aggregateLevel = 4\<rparr>, \<lparr>counterId = 143, aggregateLevel = 4\<rparr>],
       StubEv ''vc'' ''vmware_soap_session=52e1'', DestroyViewEv,
       QueryPerfEv [example_spec 6], PrintEv ''No data returned for cpu.ready.'',
       DisconnectEv],
      Inr ())"
  by (simp add: example_simps)




section \<open>The filter\<close>

lemma filtered_counters_Some:
  "filtered_counters (Some q) cs =
     Inr (filter (\<lambda>t. take (length q) (casefold (name t)) = q) cs)"
  by (induction cs) (simp_all add: startswith_def)

lemma filtered_counters_None:
  "filtered_counters None cs = (if cs = [] then Inr [] else Inl TypeError)"
  by (cases cs) (simp_all add: startswith_def)

text \<open>
  Claim C4. The filter should keep the counters whose name starts with the filter text,
  whatever the case of either, and keep all of them for an empty or absent filter. The
  script lowers the case of the name only, and turns an empty answer into \<^verbatim>\<open>None\<close>,
  which \<^verbatim>\<open>startswith\<close> rejects: with the candidates \<open>cpu.ready\<close> and \<open>net.usage\<close>, an
  empty or absent filter raises \<open>TypeError\<close> and the filter \<open>NET\<close> keeps nothing, where
  \<open>net\<close> keeps \<open>net.usage\<close>.
\<close>

theorem filter_rejects_empty_and_upper_case:
  "filtered_counters (or_None (Some [])) [cpu_ready, net_usage] = Inl TypeError \<and>
   filtered_counters (or_None None) [cpu_ready, net_usage] = Inl TypeError \<and>
   filtered_counters (or_None (Some ''NET'')) [cpu_ready, net_usage] = Inr [] \<and>
   filtered_counters (or_None (Some ''net'')) [cpu_ready, net_usage] = Inr [net_usage]"
  by (simp add: or_None_def startswith_def example_casefold example_counter_parts)

section \<open>The claims at the example runs\<close>

theorem enable_guest_one_mapping_per_counter_witness:
  "Login (example_service None) ''root'' ''pw'' = Inr () \<and>
   RetrieveServiceContent (example_service None) = Inr (''PerformanceManager'', ''PerfMgr'') \<and>
   QueryPerfCounterInt (example_service None) = Inr example_counters \<and>
   UpdateCounterLevelMapping (example_service None)
     (map (\<lambda>c. \<lparr>counterId = key c, aggregateLevel = 4\<rparr>) example_counters) = Inr () \<and>
   (\<exists>tr tok mappings result.
      enable_guest (example_service None) ''vc'' ''root'' ''pw'' = (tr, Inr (tok, result)) \<and>
      submitted tr = [mappings] \<and>
      length mappings = length example_counters \<and> length result = length example_counters \<and>
      map counterId mappings = map key example_counters \<and>
      map aggregateLevel mappings = replicate (length example_counters) 4 \<and>
      map id_c result = map key example_counters)"
proof -
  have h: "Login (example_service None) ''root'' ''pw'' = Inr ()"
    "RetrieveServiceContent (example_service None) = Inr (''PerformanceManager'', ''PerfMgr'')"
    "QueryPerfCounterInt (example_service None) = Inr example_counters"
    "UpdateCounterLevelMapping (example_service None)
       (map (\<lambda>c. \<lparr>counterId = key c, aggregateLevel = 4\<rparr>) example_counters) = Inr ()"
    by (simp_all add: example_service_parts)
  from enable_guest_one_mapping_per_counter [OF h, of "''vc''"] h show ?thesis
    by blast
qed

theorem enable_guest_returns_absent_token:
  "enable_guest (example_service None) ''vc'' ''root'' ''pw'' =
     ([LoginEv ''root'' ''pw'', PrintEv ''Type: PerformanceManager'', PrintEv ''Value: PerfMgr'',
       UpdateCounterLevelMappingEv
         [\<lparr>counterId = 6, aggregateLevel = 4\<rparr>, \<lparr>counterId = 143, aggregateLevel = 4\<rparr>]],
      Inr (None, [cpu_ready, net_usage]))"
  by (rule example_guest)

theorem enable_guest_returns_cookie_lookup_witness:
  "Login (example_service (Some ''52e1'')) ''root'' ''pw'' = Inr () \<and>
   (\<exists>result. snd (enable_guest (example_service (Some ''52e1'')) ''vc'' ''root'' ''pw'') =
      Inr (Some ''52e1'', result)) \<and>
   Login refusing_service ''root'' ''pw'' = Inl (External ''Fault'') \<and>
   snd (enable_guest refusing_service ''vc'' ''root'' ''pw'') = Inl (External ''Fault'')"
proof -
  have h: "Login (example_service (Some ''52e1'')) ''root'' ''pw'' = Inr () \<and>
    RetrieveServiceContent (example_service (Some ''52e1''))
      = Inr (''PerformanceManager'', ''PerfMgr'') \<and>
    QueryPerfCounterInt (example_service (Some ''52e1'')) = Inr example_counters \<and>
    UpdateCounterLevelMapping (example_service (Some ''52e1''))
      (map (\<lambda>c. \<lparr>counterId = key c, aggregateLevel = 4\<rparr>) example_counters) = Inr ()"
    by (simp add: example_service_parts)
  have r: "Login refusing_service ''root'' ''pw'' = Inl (External ''Fault'')"
    by (simp add: refusing_service_def)
  have "\<exists>result. snd (enable_guest (example_service (Some ''52e1'')) ''vc'' ''root'' ''pw'') =
      Inr (cookies (example_service (Some ''52e1'')) ''vmware_soap_session'', result)"
    using enable_guest_returns_cookie_lookup
      [of "example_service (Some ''52e1'')" "''root''" "''pw''"
          "(''PerformanceManager'', ''PerfMgr'')" example_counters "''vc''"] h
    by blast
  moreover have "snd (enable_guest refusing_service ''vc'' ''root'' ''pw'') = Inl (External ''Fault'')"
    using enable_guest_returns_cookie_lookup
      [of refusing_service "''root''" "''pw''" _ _ "''vc''" "External ''Fault''"] r
    by blast
  ultimately show ?thesis
    using h r by (simp add: example_service_parts)
qed

theorem all_counters_keeps_duplicates:
  "all_counters [cpu_ready] [cpu_ready, net_usage] = [cpu_ready, cpu_ready, net_usage] \<and>
   \<not> distinct (map id_c (all_counters [cpu_ready] [cpu_ready, net_usage]))"
  by (simp add: all_counters_def)



theorem main_error_leaves_session_connected:
  "snd (main (example_env (Some []) (answers []) accepting_plot)) = Inl TypeError \<and>
   StubEv ''vc'' ''vmware_soap_session=52e1''
     \<in> set (fst (main (example_env (Some []) (answers []) accepting_plot))) \<and>
   DisconnectEv \<notin> set (fst (main (example_env (Some []) (answers []) accepting_plot)))"
  by (simp add: example_run_empty_filter)

theorem main_disconnects_when_it_returns_witness:
  "snd (main (example_env (Some ''cpu'') (answers []) accepting_plot)) = Inr () \<and>
   fst (main (example_env (Some ''cpu'') (answers []) accepting_plot)) \<noteq> [] \<and>
   last (fst (main (example_env (Some ''cpu'') (answers []) accepting_plot))) = DisconnectEv \<and>
   (\<exists>e. snd (main (example_env (Some []) (answers []) accepting_plot)) = Inl e) \<and>
   DisconnectEv \<notin> set (fst (main (example_env (Some []) (answers []) accepting_plot)))"
proof -
  have a: "snd (main (example_env (Some ''cpu'') (answers []) accepting_plot)) = Inr ()"
    by (simp add: example_run_no_data)
  have b: "\<exists>e. snd (main (example_env (Some []) (answers []) accepting_plot)) = Inl e"
    by (simp add: example_run_empty_filter)
  from main_disconnects_when_it_returns
         [of "example_env (Some ''cpu'') (answers []) accepting_plot"] a
  have "fst (main (example_env (Some ''cpu'') (answers []) accepting_plot)) \<noteq> [] \<and>
        last (fst (main (example_env (Some ''cpu'') (answers []) accepting_plot))) = DisconnectEv"
    by blast
  moreover from main_disconnects_when_it_returns
         [of "example_env (Some []) (answers []) accepting_plot"] b
  have "DisconnectEv \<notin> set (fst (main (example_env (Some []) (answers []) accepting_plot)))"
    by blast
  ultimately show ?thesis using a b by blast
qed

theorem main_no_data_witness:
  "RetrieveContent (example_env (Some ''cpu'') (answers []) accepting_plot)
     = Inr (example_content (answers [])) \<and>
   QueryPerfEv [example_spec 6]
     \<in> set (fst (main (example_env (Some ''cpu'') (answers []) accepting_plot))) \<and>
   QueryPerf (perfManager (example_content (answers []))) [example_spec 6] = Inr [] \<and>
   snd (main (example_env (Some ''cpu'') (answers []) accepting_plot)) = Inr () \<and>
   (\<exists>pre (counter :: CounterInfo).
      fst (main (example_env (Some ''cpu'') (answers []) accepting_plot)) =
        pre @ [QueryPerfEv [example_spec 6],
               PrintEv (''No data returned for '' @ name counter @ ''.''), DisconnectEv])"
proof -
  let ?ev = "example_env (Some ''cpu'') (answers []) accepting_plot"
  have c: "RetrieveContent ?ev = Inr (example_content (answers []))"
    by (simp add: example_env_parts)
  have q: "QueryPerfEv [example_spec 6] \<in> set (fst (main ?ev))"
    by (simp add: example_run_no_data)
  have e: "QueryPerf (perfManager (example_content (answers []))) [example_spec 6] = Inr []"
    by (simp add: example_content_parts answers_def)
  from main_no_data [OF c q e] c q e show ?thesis
    by blast
qed

end
